theory Spec2Isabelle
  imports Main "HOL-Library.AList" "HOL-Library.Sublist"
begin

section \<open>Data model\<close>

text \<open>
  The web API (\<^verbatim>\<open>app.py\<close>) and the dashboard (\<^verbatim>\<open>app1.py\<close>) are sequential glue around
  an inference library.  The embedding keeps the glue as it is written and takes the
  library as a parameter: every library call is a field of the record \<open>env\<close> that returns
  either the exception it raises or its result.

  Byte strings and paths are \<open>string\<close>s.  Text extracted from a PDF is a Python \<open>str\<close>,
  a sequence of Unicode code points, modelled as \<open>nat list\<close> so that \<open>str.strip\<close> can be
  written with Python's own whitespace table.
\<close>

type_synonym bytes = string
type_synonym path = string
type_synonym pystr = "nat list"

text \<open>
  Exceptions.  \<open>HTTPException status detail\<close> is FastAPI's; \<open>Error msg\<close> is any other
  subclass of \<open>Exception\<close>, with \<open>msg\<close> the value of \<open>str(e)\<close>.
\<close>

datatype exn = HTTPException nat string | Error string

text \<open>
  The filesystem: a finite table from a path to what is there, a regular file with its
  contents or a directory.
\<close>

datatype node = File bytes | Dir

type_synonym filesystem = "(path \<times> node) list"

text \<open>A voice sample record, the value type of both registries.\<close>

record 'e voice =
  embedding :: 'e
  audio_path :: path

record world =
  files :: filesystem

text \<open>
  \<open>reference_audios\<close> is the module-level dict of \<^verbatim>\<open>app.py\<close>: an association list in
  insertion order, which is the order \<open>dict.keys()\<close> lists.
\<close>

record 'e api_state = world +
  reference_audios :: "(string \<times> 'e voice) list"

text \<open>\<open>voice_samples\<close> is \<^verbatim>\<open>st.session_state.voice_samples\<close> of \<^verbatim>\<open>app1.py\<close>.\<close>

record 'e session_state = world +
  voice_samples :: "(string \<times> 'e voice) list"

text \<open>
  The collaborators.  \<open>'a\<close> is pydub's \<open>AudioSegment\<close>, \<open>'e\<close> the speaker embedding;
  both are opaque.  A library call that reads a file is given the file's contents, one
  that writes a file returns the bytes it writes.
  \<^item> \<open>from_file\<close>: \<^verbatim>\<open>AudioSegment.from_file(path)\<close>
  \<^item> \<open>set_channels\<close>, \<open>set_frame_rate\<close>: the two methods of \<open>AudioSegment\<close>
  \<^item> \<open>export\<close>: \<^verbatim>\<open>audio.export(path, format=...)\<close>
  \<^item> \<open>get_se\<close>: \<^verbatim>\<open>se_extractor.get_se(path, tone_color_converter)\<close>
  \<^item> \<open>pdf_reader\<close>: \<^verbatim>\<open>PyPDF2.PdfReader(io.BytesIO(content))\<close>; the result lists, for each
    page, what \<^verbatim>\<open>page.extract_text()\<close> returns or raises
  \<^item> \<open>tts\<close>: \<^verbatim>\<open>base_speaker_tts.tts(text, path, language=...)\<close>
  \<^item> \<open>tone_convert\<close>: \<^verbatim>\<open>tone_color_converter.convert(audio_src_path, src_se, tts_se, output_path)\<close>
  \<^item> \<open>gettempdir\<close>: \<^verbatim>\<open>tempfile.gettempdir()\<close>
  \<^item> \<open>remove_fault\<close>: the \<open>OSError\<close>, if any, with which the operating system refuses
    to remove the regular file at a path (permission denied, file in use)
  \<^item> \<open>str_http\<close>: \<open>str(e)\<close> for an \<open>HTTPException\<close> with the given status and detail,
    which the web framework defines
\<close>

record ('a, 'e) env =
  from_file :: "bytes \<Rightarrow> exn + 'a"
  set_channels :: "nat \<Rightarrow> 'a \<Rightarrow> exn + 'a"
  set_frame_rate :: "nat \<Rightarrow> 'a \<Rightarrow> exn + 'a"
  export :: "'a \<Rightarrow> string \<Rightarrow> exn + bytes"
  get_se :: "bytes \<Rightarrow> exn + 'e"
  pdf_reader :: "bytes \<Rightarrow> exn + (exn + pystr) list"
  tts :: "pystr \<Rightarrow> string \<Rightarrow> exn + bytes"
  tone_convert :: "bytes \<Rightarrow> 'e \<Rightarrow> 'e \<Rightarrow> exn + bytes"
  gettempdir :: path
  remove_fault :: "path \<Rightarrow> exn option"
  str_http :: "nat \<Rightarrow> string \<Rightarrow> string"

text \<open>\<open>str(e)\<close> of a caught exception.\<close>

fun str_exn :: "('a, 'e) env \<Rightarrow> exn \<Rightarrow> string" where
  "str_exn env (HTTPException status detail) = str_http env status detail"
| "str_exn env (Error msg) = msg"

section \<open>Operating system calls\<close>

text \<open>\<^verbatim>\<open>os.path.exists\<close>: true of a regular file and of a directory.\<close>

definition path_exists :: "filesystem \<Rightarrow> path \<Rightarrow> bool" where
  "path_exists fs p = (map_of fs p \<noteq> None)"

text \<open>
  \<open>create_file\<close> is the write through a descriptor that \<^verbatim>\<open>tempfile\<close> has just opened on a
  new path.  \<open>write_file\<close> is \<^verbatim>\<open>open(path, "wb")\<close> followed by the write, as the library
  calls that are given an output path do it: a directory at the path raises.
\<close>

definition create_file :: "path \<Rightarrow> bytes \<Rightarrow> filesystem \<Rightarrow> filesystem" where
  "create_file p b fs = AList.update p (File b) fs"

definition write_file :: "path \<Rightarrow> bytes \<Rightarrow> filesystem \<Rightarrow> exn + filesystem" where
  "write_file p b fs =
     (case map_of fs p of
        Some Dir \<Rightarrow> Inl (Error (''[Errno 21] Is a directory: '' @ p))
      | _ \<Rightarrow> Inr (AList.update p (File b) fs))"

definition read_file :: "filesystem \<Rightarrow> path \<Rightarrow> exn + bytes" where
  "read_file fs p =
     (case map_of fs p of
        None \<Rightarrow> Inl (Error (''[Errno 2] No such file or directory: '' @ p))
      | Some Dir \<Rightarrow> Inl (Error (''[Errno 21] Is a directory: '' @ p))
      | Some (File b) \<Rightarrow> Inr b)"

text \<open>
  \<^verbatim>\<open>os.remove\<close> and \<^verbatim>\<open>os.unlink\<close> are the same call.  It raises for a missing path, for a
  directory, and for a regular file that the operating system refuses to remove.
\<close>

definition os_remove :: "('a, 'e) env \<Rightarrow> filesystem \<Rightarrow> path \<Rightarrow> exn + filesystem" where
  "os_remove env fs p =
     (case map_of fs p of
        None \<Rightarrow> Inl (Error (''[Errno 2] No such file or directory: '' @ p))
      | Some Dir \<Rightarrow> Inl (Error (''[Errno 21] Is a directory: '' @ p))
      | Some (File b) \<Rightarrow>
          (case remove_fault env p of
             Some e \<Rightarrow> Inl e
           | None \<Rightarrow> Inr (AList.delete p fs)))"

definition os_unlink :: "('a, 'e) env \<Rightarrow> filesystem \<Rightarrow> path \<Rightarrow> exn + filesystem" where
  "os_unlink env fs p = os_remove env fs p"

text \<open>\<^verbatim>\<open>os.path.join\<close> of two components (posixpath).\<close>

definition path_join :: "path \<Rightarrow> path \<Rightarrow> path" where
  "path_join a b =
     (if b \<noteq> [] \<and> hd b = CHR ''/'' then b
      else if a = [] \<or> last a = CHR ''/'' then a @ b
      else a @ ''/'' @ b)"

text \<open>
  \<^verbatim>\<open>tempfile._mkstemp_inner\<close>: the candidate names come from the random name sequence
  (a finite list here, \<open>TMP_MAX\<close> tries in the library); the first one at whose path
  there is neither a file nor a directory is created, and running out of candidates
  raises \<open>FileExistsError\<close>.
\<close>

fun mkstemp_inner :: "path \<Rightarrow> string \<Rightarrow> string \<Rightarrow> string list \<Rightarrow> filesystem \<Rightarrow> exn + path" where
  "mkstemp_inner dir pre suf [] fs =
     Inl (Error ''[Errno 17] No usable temporary file name found'')"
| "mkstemp_inner dir pre suf (name # names) fs =
     (let file = path_join dir (pre @ name @ suf) in
      if path_exists fs file then mkstemp_inner dir pre suf names fs else Inr file)"

section \<open>The web API\<close>

subsection \<open>\<^verbatim>\<open>upload_voice_sample\<close>\<close>

record upload_response =
  voice_id :: string
  message :: string

text \<open>
  The body of the \<^verbatim>\<open>try\<close> block, statement by statement.  \<open>uuid4\<close> is the value of
  \<^verbatim>\<open>str(uuid.uuid4())\<close> and \<open>names\<close> the random name sequence of \<^verbatim>\<open>tempfile\<close>.  The state
  that is returned with an exception is the state at the statement that raised.
\<close>

definition upload_voice_sample_try ::
  "('a, 'e) env \<Rightarrow> string \<Rightarrow> string list \<Rightarrow> bytes \<Rightarrow> 'e api_state \<Rightarrow>
     (exn + upload_response) \<times> 'e api_state" where
  "upload_voice_sample_try env uuid4 names content s =
     (case mkstemp_inner (gettempdir env) ''tmp'' ''.wav'' names (files s) of
        Inl e \<Rightarrow> (Inl e, s)
      | Inr tmp_path \<Rightarrow>
          let s1 = s\<lparr>files := create_file tmp_path content (files s)\<rparr> in
          (case read_file (files s1) tmp_path of
             Inl e \<Rightarrow> (Inl e, s1)
           | Inr raw \<Rightarrow>
          (case from_file env raw of
             Inl e \<Rightarrow> (Inl e, s1)
           | Inr audio0 \<Rightarrow>
          (case set_channels env 1 audio0 of
             Inl e \<Rightarrow> (Inl e, s1)
           | Inr audio1 \<Rightarrow>
          (case set_frame_rate env 24000 audio1 of
             Inl e \<Rightarrow> (Inl e, s1)
           | Inr audio \<Rightarrow>
          let processed_path = ''processed_'' @ uuid4 @ ''.wav'' in
          (case export env audio ''wav'' of
             Inl e \<Rightarrow> (Inl e, s1)
           | Inr wav \<Rightarrow>
          (case write_file processed_path wav (files s1) of
             Inl e \<Rightarrow> (Inl e, s1)
           | Inr fs2 \<Rightarrow>
          let s2 = s1\<lparr>files := fs2\<rparr> in
          (case read_file (files s2) processed_path of
             Inl e \<Rightarrow> (Inl e, s2)
           | Inr processed \<Rightarrow>
          (case get_se env processed of
             Inl e \<Rightarrow> (Inl e, s2)
           | Inr speaker_embedding \<Rightarrow>
          let s3 = s2\<lparr>reference_audios :=
                       AList.update uuid4
                         \<lparr>embedding = speaker_embedding, audio_path = processed_path\<rparr>
                         (reference_audios s2)\<rparr> in
          (case os_unlink env (files s3) tmp_path of
             Inl e \<Rightarrow> (Inl e, s3)
           | Inr fs \<Rightarrow>
               (Inr \<lparr>voice_id = uuid4, message = ''Voice sample uploaded successfully''\<rparr>,
                s3\<lparr>files := fs\<rparr>)))))))))))"

text \<open>The handler: \<^verbatim>\<open>except Exception as e: raise HTTPException(500, ...)\<close>.\<close>

definition upload_voice_sample ::
  "('a, 'e) env \<Rightarrow> string \<Rightarrow> string list \<Rightarrow> bytes \<Rightarrow> 'e api_state \<Rightarrow>
     (exn + upload_response) \<times> 'e api_state" where
  "upload_voice_sample env uuid4 names content s =
     (case upload_voice_sample_try env uuid4 names content s of
        (Inl e, s') \<Rightarrow>
          (Inl (HTTPException 500 (''Error processing voice sample: '' @ str_exn env e)), s')
      | (Inr r, s') \<Rightarrow> (Inr r, s'))"

subsection \<open>\<^verbatim>\<open>convert_pdf\<close>\<close>

text \<open>
  \<open>str.isspace\<close> of one code point (CPython's \<open>_PyUnicode_IsWhitespace\<close>) and
  \<open>str.strip()\<close> with no argument.
\<close>

definition py_isspace :: "nat \<Rightarrow> bool" where
  "py_isspace c =
     ((9 \<le> c \<and> c \<le> 13) \<or> (28 \<le> c \<and> c \<le> 32) \<or> c = 133 \<or> c = 160 \<or> c = 5760 \<or>
      (8192 \<le> c \<and> c \<le> 8202) \<or> c = 8232 \<or> c = 8233 \<or> c = 8239 \<or> c = 8287 \<or>
      c = 12288)"

definition strip :: "pystr \<Rightarrow> pystr" where
  "strip t = rev (dropWhile py_isspace (rev (dropWhile py_isspace t)))"

text \<open>
  The loop \<^verbatim>\<open>for page in pdf_reader.pages: text += page.extract_text() + "\n"\<close>; a page
  whose extraction raises ends it.
\<close>

fun extract_pages :: "pystr \<Rightarrow> (exn + pystr) list \<Rightarrow> exn + pystr" where
  "extract_pages t [] = Inr t"
| "extract_pages t (page # pages) =
     (case page of
        Inl e \<Rightarrow> Inl e
      | Inr extracted \<Rightarrow> extract_pages (t @ extracted @ [10]) pages)"

text \<open>
  \<^verbatim>\<open>tempfile.TemporaryDirectory\<close>.  \<open>mkdtemp\<close> takes the first candidate at whose path
  there is nothing; the directory is then made there.  Leaving the \<^verbatim>\<open>with\<close> block
  removes the directory and everything below it.
\<close>

fun mkdtemp :: "path \<Rightarrow> string \<Rightarrow> string \<Rightarrow> string list \<Rightarrow> filesystem \<Rightarrow> exn + path" where
  "mkdtemp dir pre suf [] fs =
     Inl (Error ''[Errno 17] No usable temporary directory name found'')"
| "mkdtemp dir pre suf (name # names) fs =
     (let file = path_join dir (pre @ name @ suf) in
      if path_exists fs file then mkdtemp dir pre suf names fs else Inr file)"

definition mkdir :: "path \<Rightarrow> filesystem \<Rightarrow> filesystem" where
  "mkdir d fs = AList.update d Dir fs"

definition in_dir :: "path \<Rightarrow> path \<Rightarrow> bool" where
  "in_dir d p = (p = d \<or> prefix (path_join d []) p)"

definition rmtree :: "path \<Rightarrow> filesystem \<Rightarrow> filesystem" where
  "rmtree d fs = filter (\<lambda>entry. \<not> in_dir d (fst entry)) fs"

text \<open>\<^verbatim>\<open>FileResponse(result_audio, media_type=..., filename=...)\<close>: it names a file, it does
  not hold the file's bytes.\<close>

record file_response =
  path :: path
  media_type :: string
  filename :: string

text \<open>
  The body of the \<^verbatim>\<open>with tempfile.TemporaryDirectory() as tmp_dir\<close> block.  \<open>vid\<close> is the
  optional query parameter \<open>voice_id\<close>; \<^verbatim>\<open>if voice_id and voice_id in reference_audios\<close>
  needs it to be given, non-empty and a key.
\<close>

definition convert_in_tmp_dir ::
  "('a, 'e) env \<Rightarrow> path \<Rightarrow> pystr \<Rightarrow> string option \<Rightarrow> string \<Rightarrow> 'e api_state \<Rightarrow>
     (exn + file_response) \<times> 'e api_state" where
  "convert_in_tmp_dir env tmp_dir t vid language s =
     (let base_audio_path = path_join tmp_dir ''base_audio.wav'' in
      case tts env t language of
        Inl e \<Rightarrow> (Inl e, s)
      | Inr base \<Rightarrow>
      (case write_file base_audio_path base (files s) of
        Inl e \<Rightarrow> (Inl e, s)
      | Inr fs1 \<Rightarrow>
          let s1 = s\<lparr>files := fs1\<rparr>;
              default_voice =
                (Inr \<lparr>path = base_audio_path, media_type = ''audio/wav'',
                      filename = ''converted_audio.wav''\<rparr>, s1)
          in
          (case vid of
             None \<Rightarrow> default_voice
           | Some v \<Rightarrow>
               if v \<noteq> [] \<and> v \<in> set (map fst (reference_audios s1)) then
                 (case map_of (reference_audios s1) v of
                    None \<Rightarrow> (Inl (Error ([CHR 0x27] @ v @ [CHR 0x27])), s1)
                  | Some reference_info \<Rightarrow>
                      let target_se = embedding reference_info;
                          output_path = path_join tmp_dir ''cloned_audio.wav''
                      in
                      (case read_file (files s1) base_audio_path of
                         Inl e \<Rightarrow> (Inl e, s1)
                       | Inr src \<Rightarrow>
                      (case get_se env src of
                         Inl e \<Rightarrow> (Inl e, s1)
                       | Inr src_se \<Rightarrow>
                      (case tone_convert env src src_se target_se of
                         Inl e \<Rightarrow> (Inl e, s1)
                       | Inr cloned \<Rightarrow>
                      (case write_file output_path cloned (files s1) of
                         Inl e \<Rightarrow> (Inl e, s1)
                       | Inr fs2 \<Rightarrow>
                           (Inr \<lparr>path = output_path, media_type = ''audio/wav'',
                                 filename = ''converted_audio.wav''\<rparr>,
                            s1\<lparr>files := fs2\<rparr>))))))
               else default_voice)))"

text \<open>The body of the \<^verbatim>\<open>try\<close> block; the temporary directory is removed however the
  \<^verbatim>\<open>with\<close> block is left.\<close>

definition convert_pdf_try ::
  "('a, 'e) env \<Rightarrow> string list \<Rightarrow> bytes \<Rightarrow> string option \<Rightarrow> string \<Rightarrow> 'e api_state \<Rightarrow>
     (exn + file_response) \<times> 'e api_state" where
  "convert_pdf_try env names pdf_content vid language s =
     (case pdf_reader env pdf_content of
        Inl e \<Rightarrow> (Inl e, s)
      | Inr pages \<Rightarrow>
     (case extract_pages [] pages of
        Inl e \<Rightarrow> (Inl e, s)
      | Inr t \<Rightarrow>
          if strip t = [] then
            (Inl (HTTPException 400 ''No text could be extracted from PDF''), s)
          else
            (case mkdtemp (gettempdir env) ''tmp'' [] names (files s) of
               Inl e \<Rightarrow> (Inl e, s)
             | Inr tmp_dir \<Rightarrow>
                 (case convert_in_tmp_dir env tmp_dir t vid language
                         (s\<lparr>files := mkdir tmp_dir (files s)\<rparr>) of
                    (r, s') \<Rightarrow> (r, s'\<lparr>files := rmtree tmp_dir (files s')\<rparr>)))))"

text \<open>The handler: \<^verbatim>\<open>except Exception as e: raise HTTPException(500, ...)\<close>, which also
  catches the \<open>HTTPException\<close> raised inside the \<^verbatim>\<open>try\<close> block.\<close>

definition convert_pdf ::
  "('a, 'e) env \<Rightarrow> string list \<Rightarrow> bytes \<Rightarrow> string option \<Rightarrow> string \<Rightarrow> 'e api_state \<Rightarrow>
     (exn + file_response) \<times> 'e api_state" where
  "convert_pdf env names pdf_content vid language s =
     (case convert_pdf_try env names pdf_content vid language s of
        (Inl e, s') \<Rightarrow>
          (Inl (HTTPException 500 (''Error converting PDF: '' @ str_exn env e)), s')
      | (Inr r, s') \<Rightarrow> (Inr r, s'))"

subsection \<open>\<^verbatim>\<open>list_voices\<close>\<close>

definition list_voices :: "'e api_state \<Rightarrow> (exn + string list) \<times> 'e api_state" where
  "list_voices s = (Inr (map fst (reference_audios s)), s)"

subsection \<open>\<^verbatim>\<open>delete_voice\<close>\<close>

text \<open>The handler has no \<^verbatim>\<open>try\<close>: an exception of \<^verbatim>\<open>os.remove\<close> leaves it as it is, with
  the record still in the registry.\<close>

definition delete_voice ::
  "('a, 'e) env \<Rightarrow> string \<Rightarrow> 'e api_state \<Rightarrow> (exn + string) \<times> 'e api_state" where
  "delete_voice env vid s =
     (if vid \<in> set (map fst (reference_audios s)) then
        (case map_of (reference_audios s) vid of
           None \<Rightarrow> (Inl (Error ([CHR 0x27] @ vid @ [CHR 0x27])), s)
         | Some info \<Rightarrow>
             (case (if path_exists (files s) (audio_path info)
                    then os_remove env (files s) (audio_path info)
                    else Inr (files s)) of
                Inl e \<Rightarrow> (Inl e, s)
              | Inr fs \<Rightarrow>
                  (Inr (''Voice '' @ vid @ '' deleted successfully''),
                   s\<lparr>files := fs,
                     reference_audios := AList.delete vid (reference_audios s)\<rparr>)))
      else (Inl (HTTPException 404 ''Voice ID not found''), s))"

subsection \<open>The routes\<close>

text \<open>
  The requests the application serves, with the values a handler draws while it runs
  (the identifier of \<^verbatim>\<open>uuid.uuid4()\<close>, the name sequence of \<^verbatim>\<open>tempfile\<close>) written into the
  request.  \<open>serve\<close> is the state a request leaves, \<open>serve_all\<close> the state after a
  sequence of requests, one at a time.
\<close>

datatype request =
    Root
  | UploadVoiceSample string "string list" bytes
  | ConvertPdf "string list" bytes "string option" string
  | ListVoices
  | DeleteVoice string

fun serve :: "('a, 'e) env \<Rightarrow> request \<Rightarrow> 'e api_state \<Rightarrow> 'e api_state" where
  "serve env Root s = s"
| "serve env (UploadVoiceSample uuid4 names content) s =
     snd (upload_voice_sample env uuid4 names content s)"
| "serve env (ConvertPdf names pdf_content vid language) s =
     snd (convert_pdf env names pdf_content vid language s)"
| "serve env ListVoices s = snd (list_voices s)"
| "serve env (DeleteVoice vid) s = snd (delete_voice env vid s)"

fun serve_all :: "('a, 'e) env \<Rightarrow> request list \<Rightarrow> 'e api_state \<Rightarrow> 'e api_state" where
  "serve_all env [] s = s"
| "serve_all env (r # rs) s = serve_all env rs (serve env r s)"


fun deletes :: "string \<Rightarrow> request \<Rightarrow> bool" where
  "deletes v (DeleteVoice vid) = (vid = v)"
| "deletes v r = False"

subsection \<open>An invariant of the registry\<close>

text \<open>No record's backing path is a directory.\<close>

definition backing_files :: "'e api_state \<Rightarrow> bool" where
  "backing_files s =
     list_all (\<lambda>entry. map_of (files s) (audio_path (snd entry)) \<noteq> Some Dir)
       (reference_audios s)"

section \<open>The dashboard\<close>

text \<open>What the page shows: \<^verbatim>\<open>st.success(msg)\<close> or \<^verbatim>\<open>st.error(msg)\<close>.\<close>

datatype ui_message = st_success string | st_error string

text \<open>The \<^verbatim>\<open>try\<close> block of the "Save Voice Sample" handler: the statements of
  \<^verbatim>\<open>upload_voice_sample\<close>, with the record stored under the name the user typed.\<close>

definition save_voice_sample_try ::
  "('a, 'e) env \<Rightarrow> string \<Rightarrow> string list \<Rightarrow> bytes \<Rightarrow> string \<Rightarrow> 'e session_state \<Rightarrow>
     (exn + string) \<times> 'e session_state" where
  "save_voice_sample_try env uuid4 names content voice_name s =
     (case mkstemp_inner (gettempdir env) ''tmp'' ''.wav'' names (files s) of
        Inl e \<Rightarrow> (Inl e, s)
      | Inr tmp_path \<Rightarrow>
          let s1 = s\<lparr>files := create_file tmp_path content (files s)\<rparr> in
          (case read_file (files s1) tmp_path of
             Inl e \<Rightarrow> (Inl e, s1)
           | Inr raw \<Rightarrow>
          (case from_file env raw of
             Inl e \<Rightarrow> (Inl e, s1)
           | Inr audio0 \<Rightarrow>
          (case set_channels env 1 audio0 of
             Inl e \<Rightarrow> (Inl e, s1)
           | Inr audio1 \<Rightarrow>
          (case set_frame_rate env 24000 audio1 of
             Inl e \<Rightarrow> (Inl e, s1)
           | Inr audio \<Rightarrow>
          let processed_path = ''processed_'' @ uuid4 @ ''.wav'' in
          (case export env audio ''wav'' of
             Inl e \<Rightarrow> (Inl e, s1)
           | Inr wav \<Rightarrow>
          (case write_file processed_path wav (files s1) of
             Inl e \<Rightarrow> (Inl e, s1)
           | Inr fs2 \<Rightarrow>
          let s2 = s1\<lparr>files := fs2\<rparr> in
          (case read_file (files s2) processed_path of
             Inl e \<Rightarrow> (Inl e, s2)
           | Inr processed \<Rightarrow>
          (case get_se env processed of
             Inl e \<Rightarrow> (Inl e, s2)
           | Inr speaker_embedding \<Rightarrow>
          let s3 = s2\<lparr>voice_samples :=
                       AList.update voice_name
                         \<lparr>embedding = speaker_embedding, audio_path = processed_path\<rparr>
                         (voice_samples s2)\<rparr> in
          (case os_unlink env (files s3) tmp_path of
             Inl e \<Rightarrow> (Inl e, s3)
           | Inr fs \<Rightarrow>
               (Inr (''Voice sample '' @ [CHR 0x27] @ voice_name @ [CHR 0x27] @
                     '' saved successfully!''),
                s3\<lparr>files := fs\<rparr>)))))))))))"

text \<open>
  \<^verbatim>\<open>if voice_file and voice_name and st.button("Save Voice Sample")\<close>: \<open>voice_file\<close> is the
  uploaded file, if any, and \<open>clicked\<close> the value of the button.  Nothing is shown when
  the guard is false.
\<close>

definition save_voice_sample ::
  "('a, 'e) env \<Rightarrow> string \<Rightarrow> string list \<Rightarrow> bytes option \<Rightarrow> string \<Rightarrow> bool \<Rightarrow>
     'e session_state \<Rightarrow> ui_message option \<times> 'e session_state" where
  "save_voice_sample env uuid4 names voice_file voice_name clicked s =
     (case voice_file of
        None \<Rightarrow> (None, s)
      | Some content \<Rightarrow>
          if voice_name \<noteq> [] \<and> clicked then
            (case save_voice_sample_try env uuid4 names content voice_name s of
               (Inl e, s') \<Rightarrow>
                 (Some (st_error (''Error processing voice sample: '' @ str_exn env e)), s')
             | (Inr msg, s') \<Rightarrow> (Some (st_success msg), s'))
          else (None, s))"

section \<open>A mocked inference library\<close>

text \<open>
  Decimal digits of a status code, and \<open>str(e)\<close> of an \<open>HTTPException\<close> as Starlette
  defines it: the status code, a colon and the detail.
\<close>

fun decimal :: "nat \<Rightarrow> string" where
  "decimal n =
     (if n < 10 then [''0123456789'' ! n]
      else decimal (n div 10) @ [''0123456789'' ! (n mod 10)])"

definition starlette_str :: "nat \<Rightarrow> string \<Rightarrow> string" where
  "starlette_str status detail = decimal status @ '': '' @ detail"

text \<open>
  A small instance of \<open>env\<close> on which the handlers can be run: audio that is not empty
  decodes, the embedding of a clip is its length, two PDF files are known, one with
  a page of blank text and one with a page that reads "hi", and the operating system
  removes every file it is asked to remove.  \<open>locked_env\<close> is the same library on a
  system that refuses to remove files in \<^verbatim>\<open>/tmp\<close>.
\<close>

definition mock_env :: "(bytes, nat) env" where
  "mock_env =
     \<lparr>from_file = (\<lambda>b. if b = [] then Inl (Error ''could not decode'') else Inr b),
      set_channels = (\<lambda>n a. Inr a),
      set_frame_rate = (\<lambda>n a. Inr a),
      export = (\<lambda>a fmt. Inr a),
      get_se = (\<lambda>b. Inr (length b)),
      pdf_reader =
        (\<lambda>b. if b = ''blank'' then Inr [Inr [32, 9]]
             else if b = ''hello'' then Inr [Inr [104, 105]]
             else Inl (Error ''EOF marker not found'')),
      tts = (\<lambda>t language. Inr (''speech in '' @ language)),
      tone_convert = (\<lambda>src src_se tts_se. Inr (''cloned '' @ src)),
      gettempdir = ''/tmp'',
      remove_fault = (\<lambda>p. None),
      str_http = starlette_str\<rparr>"

definition locked_env :: "(bytes, nat) env" where
  "locked_env =
     mock_env\<lparr>remove_fault :=
       (\<lambda>p. if prefix ''/tmp/'' p then Some (Error ''[Errno 13] Permission denied'')
            else None)\<rparr>"

definition empty_api :: "nat api_state" where
  "empty_api = \<lparr>files = [], reference_audios = []\<rparr>"

text \<open>The state after one upload of the clip \<open>RIFF\<close> under the identifier \<open>u1\<close>, and the
  dashboard session after the same clip was saved under the name \<open>alice\<close>.\<close>

definition one_voice :: "nat api_state" where
  "one_voice =
     \<lparr>files = [(''processed_u1.wav'', File ''RIFF'')],
      reference_audios = [(''u1'', \<lparr>embedding = 4, audio_path = ''processed_u1.wav''\<rparr>)]\<rparr>"

definition one_sample :: "nat session_state" where
  "one_sample =
     \<lparr>files = [(''processed_u1.wav'', File ''RIFF'')],
      voice_samples = [(''alice'', \<lparr>embedding = 4, audio_path = ''processed_u1.wav''\<rparr>)]\<rparr>"

section \<open>Filesystem and library facts\<close>

lemmas run_defs =
  upload_voice_sample_def upload_voice_sample_try_def convert_pdf_def convert_pdf_try_def
  convert_in_tmp_dir_def list_voices_def delete_voice_def save_voice_sample_def
  save_voice_sample_try_def mock_env_def locked_env_def empty_api_def one_voice_def
  one_sample_def Let_def create_file_def write_file_def read_file_def os_unlink_def
  os_remove_def path_exists_def path_join_def mkdir_def in_dir_def rmtree_def strip_def
  py_isspace_def starlette_str_def

lemma decimal_400: "decimal 400 = ''400''"
  by (simp add: decimal.simps[of 400] decimal.simps[of 40] decimal.simps[of 4])

lemma map_of_create_file:
  "map_of (create_file p b fs) q = (if q = p then Some (File b) else map_of fs q)"
  by (simp add: create_file_def update_conv')

lemma path_exists_create_file:
  "path_exists (create_file p b fs) q = (q = p \<or> path_exists fs q)"
  by (auto simp: path_exists_def map_of_create_file)

lemma write_file_result:
  "write_file p b fs = Inr fs' \<Longrightarrow> fs' = AList.update p (File b) fs"
  by (auto simp: write_file_def split: option.splits node.splits)

lemma map_of_write_file:
  "write_file p b fs = Inr fs' \<Longrightarrow>
   map_of fs' q = (if q = p then Some (File b) else map_of fs q)"
  by (auto simp: update_conv' dest!: write_file_result)

lemma path_exists_write_file:
  "write_file p b fs = Inr fs' \<Longrightarrow> path_exists fs' q = (q = p \<or> path_exists fs q)"
  by (auto simp: path_exists_def map_of_write_file)

lemma read_file_written:
  "write_file p b fs = Inr fs' \<Longrightarrow> read_file fs' p = Inr b"
  by (simp add: read_file_def map_of_write_file)

lemma read_file_created: "read_file (create_file p b fs) p = Inr b"
  by (simp add: read_file_def map_of_create_file)

lemma path_exists_delete:
  "path_exists (AList.delete p fs) q = (q \<noteq> p \<and> path_exists fs q)"
  by (auto simp: path_exists_def delete_conv')

text \<open>Removing a regular file succeeds exactly when the operating system does not
  refuse, and then the file is gone and nothing else is touched.\<close>

lemma os_unlink_file:
  "map_of fs p = Some (File b) \<Longrightarrow>
   os_unlink env fs p =
     (case remove_fault env p of Some e \<Rightarrow> Inl e | None \<Rightarrow> Inr (AList.delete p fs))"
  by (simp add: os_unlink_def os_remove_def)

lemma os_remove_result:
  "os_remove env fs p = Inr fs' \<Longrightarrow> fs' = AList.delete p fs"
  by (auto simp: os_remove_def split: option.splits node.splits)

text \<open>The temporary names \<^verbatim>\<open>tempfile\<close> hands out are new.\<close>

lemma mkstemp_inner_fresh:
  "mkstemp_inner dir pre suf names fs = Inr p \<Longrightarrow> \<not> path_exists fs p"
  by (induction names) (auto simp: Let_def split: if_splits)

lemma mkdtemp_fresh:
  "mkdtemp dir pre suf names fs = Inr d \<Longrightarrow> \<not> path_exists fs d"
  by (induction names) (auto simp: Let_def split: if_splits)

lemma map_of_rmtree:
  "map_of (rmtree d fs) p = (if in_dir d p then None else map_of fs p)"
  by (induction fs) (auto simp: rmtree_def)

lemma path_exists_rmtree:
  "path_exists (rmtree d fs) p = (\<not> in_dir d p \<and> path_exists fs p)"
  by (simp add: path_exists_def map_of_rmtree)

lemma in_dir_self: "in_dir d d"
  by (simp add: in_dir_def)

lemma in_dir_join:
  "b \<noteq> [] \<Longrightarrow> hd b \<noteq> CHR ''/'' \<Longrightarrow> in_dir d (path_join d b)"
  by (auto simp: in_dir_def path_join_def)

lemma keys_update: "set (map fst (AList.update k v al)) = insert k (set (map fst al))"
  using dom_update[of k v al] by simp

lemma keys_delete: "set (map fst (AList.delete k al)) = set (map fst al) - {k}"
  by (simp add: delete_keys)

text \<open>The page loop joins the pages' texts, each followed by a newline; the stripped
  text is empty exactly when every code point is whitespace.\<close>

lemma extract_pages_all:
  "extract_pages acc (map Inr texts) = Inr (acc @ concat (map (\<lambda>t. t @ [10]) texts))"
  by (induction texts arbitrary: acc) auto

lemma strip_empty_iff: "strip t = [] \<longleftrightarrow> list_all py_isspace t"
proof
  assume "strip t = []"
  then have a: "\<forall>x\<in>set (dropWhile py_isspace t). py_isspace x"
    by (simp add: strip_def dropWhile_eq_Nil_conv)
  have "dropWhile py_isspace t = []"
  proof (rule ccontr)
    assume n: "dropWhile py_isspace t \<noteq> []"
    then have "\<not> py_isspace (hd (dropWhile py_isspace t))" by (rule hd_dropWhile)
    moreover have "hd (dropWhile py_isspace t) \<in> set (dropWhile py_isspace t)"
      using n by simp
    ultimately show False using a by blast
  qed
  then show "list_all py_isspace t"
    by (auto simp: dropWhile_eq_Nil_conv list_all_iff)
next
  assume "list_all py_isspace t"
  then have "dropWhile py_isspace t = []"
    by (auto simp: dropWhile_eq_Nil_conv list_all_iff)
  then show "strip t = []" by (auto simp: strip_def dest: set_dropWhileD)
qed

section \<open>The handlers, path by path\<close>

subsection \<open>\<^verbatim>\<open>upload_voice_sample\<close>\<close>

text \<open>
  The temporary file is a regular file from the moment it is written until the
  handler removes it, whatever the export writes.
\<close>

lemma tmp_file_still_there:
  "write_file q wav (create_file p content fs) = Inr fs2 \<Longrightarrow> \<exists>b. map_of fs2 p = Some (File b)"
  by (auto simp: map_of_write_file map_of_create_file)

text \<open>
  A run of the \<^verbatim>\<open>try\<close> block that succeeds: every step returned, the record stored is
  the embedding of the exported clip, and the temporary file has been removed.
\<close>

lemma upload_try_success:
  assumes "upload_voice_sample_try env uid names content s = (Inr r, s')"
  shows "\<exists>tmp_path audio0 audio1 audio wav se fs2.
           r = \<lparr>voice_id = uid, message = ''Voice sample uploaded successfully''\<rparr> \<and>
           mkstemp_inner (gettempdir env) ''tmp'' ''.wav'' names (files s) = Inr tmp_path \<and>
           from_file env content = Inr audio0 \<and>
           set_channels env 1 audio0 = Inr audio1 \<and>
           set_frame_rate env 24000 audio1 = Inr audio \<and>
           export env audio ''wav'' = Inr wav \<and>
           write_file (''processed_'' @ uid @ ''.wav'') wav
             (create_file tmp_path content (files s)) = Inr fs2 \<and>
           get_se env wav = Inr se \<and>
           remove_fault env tmp_path = None \<and>
           s' = s\<lparr>files := AList.delete tmp_path fs2,
                  reference_audios :=
                    AList.update uid
                      \<lparr>embedding = se, audio_path = ''processed_'' @ uid @ ''.wav''\<rparr>
                      (reference_audios s)\<rparr>"
proof -
  from assms obtain tmp_path where
    m: "mkstemp_inner (gettempdir env) ''tmp'' ''.wav'' names (files s) = Inr tmp_path"
    by (auto simp: upload_voice_sample_try_def split: sum.splits)
  from assms m obtain audio0 where a0: "from_file env content = Inr audio0"
    by (auto simp: upload_voice_sample_try_def Let_def read_file_created split: sum.splits)
  from assms m a0 obtain audio1 where a1: "set_channels env 1 audio0 = Inr audio1"
    by (auto simp: upload_voice_sample_try_def Let_def read_file_created split: sum.splits)
  from assms m a0 a1 obtain audio where a: "set_frame_rate env 24000 audio1 = Inr audio"
    by (auto simp: upload_voice_sample_try_def Let_def read_file_created split: sum.splits)
  from assms m a0 a1 a obtain wav where w: "export env audio ''wav'' = Inr wav"
    by (auto simp: upload_voice_sample_try_def Let_def read_file_created split: sum.splits)
  from assms m a0 a1 a w obtain fs2 where
    f: "write_file (''processed_'' @ uid @ ''.wav'') wav
          (create_file tmp_path content (files s)) = Inr fs2"
    by (auto simp: upload_voice_sample_try_def Let_def read_file_created split: sum.splits)
  note rd = read_file_written[OF f]
  from assms m a0 a1 a w f rd obtain se where g: "get_se env wav = Inr se"
    by (auto simp: upload_voice_sample_try_def Let_def read_file_created split: sum.splits)
  from tmp_file_still_there[OF f] obtain b where t: "map_of fs2 tmp_path = Some (File b)"
    by blast
  from assms m a0 a1 a w f rd g t have nf: "remove_fault env tmp_path = None"
    by (auto simp: upload_voice_sample_try_def Let_def read_file_created os_unlink_file
             split: sum.splits option.splits)
  from assms m a0 a1 a w f rd g t nf have
    "r = \<lparr>voice_id = uid, message = ''Voice sample uploaded successfully''\<rparr> \<and>
     s' = s\<lparr>files := AList.delete tmp_path fs2,
            reference_audios :=
              AList.update uid
                \<lparr>embedding = se, audio_path = ''processed_'' @ uid @ ''.wav''\<rparr>
                (reference_audios s)\<rparr>"
    by (auto simp: upload_voice_sample_try_def Let_def read_file_created os_unlink_file)
  with m a0 a1 a w f g nf show ?thesis by blast
qed

text \<open>
  A run of the \<^verbatim>\<open>try\<close> block that raises: either the registry is as it was, or every
  step up to the store returned and the exception is the operating system's refusal to
  remove the temporary file.
\<close>

lemma upload_try_error:
  assumes "upload_voice_sample_try env uid names content s = (Inl e, s')"
  shows "reference_audios s' = reference_audios s \<or>
         (\<exists>tmp_path se.
            mkstemp_inner (gettempdir env) ''tmp'' ''.wav'' names (files s) = Inr tmp_path \<and>
            remove_fault env tmp_path = Some e \<and>
            reference_audios s' =
              AList.update uid
                \<lparr>embedding = se, audio_path = ''processed_'' @ uid @ ''.wav''\<rparr>
                (reference_audios s))"
  using assms
  by (auto simp: upload_voice_sample_try_def Let_def read_file_created os_unlink_file
           split: sum.splits option.splits
           dest!: tmp_file_still_there)

lemma upload_success:
  assumes "upload_voice_sample env uid names content s = (Inr r, s')"
  shows "upload_voice_sample_try env uid names content s = (Inr r, s')"
  using assms by (auto simp: upload_voice_sample_def split: sum.splits prod.splits)

lemma upload_error:
  assumes "upload_voice_sample env uid names content s = (Inl x, s')"
  shows "\<exists>e. upload_voice_sample_try env uid names content s = (Inl e, s') \<and>
     x = HTTPException 500 (''Error processing voice sample: '' @ str_exn env e)"
  using assms by (auto simp: upload_voice_sample_def split: sum.splits prod.splits)

lemma upload_keys:
  "set (map fst (reference_audios (snd (upload_voice_sample env uid names content s))))
     \<subseteq> insert uid (set (map fst (reference_audios s))) \<and>
   set (map fst (reference_audios s)) \<subseteq>
     set (map fst (reference_audios (snd (upload_voice_sample env uid names content s))))"
proof (cases "upload_voice_sample env uid names content s")
  case (Pair res s')
  show ?thesis
  proof (cases res)
    case (Inl x)
    with Pair upload_error[of env uid names content s x s']
    obtain e where "upload_voice_sample_try env uid names content s = (Inl e, s')" by auto
    from upload_try_error[OF this] Pair show ?thesis
      by (auto simp: keys_update simp del: set_map)
  next
    case (Inr r)
    with Pair have "upload_voice_sample_try env uid names content s = (Inr r, s')"
      by (simp add: upload_success)
    from upload_try_success[OF this] Pair show ?thesis
      by (auto simp: keys_update simp del: set_map)
  qed
qed

text \<open>Every exception after the temporary file is written leaves the file behind: the
  only \<^verbatim>\<open>os.unlink\<close> is the last statement of the \<^verbatim>\<open>try\<close> block.\<close>

lemma upload_error_keeps_tmp_file:
  assumes "mkstemp_inner (gettempdir env) ''tmp'' ''.wav'' names (files s) = Inr tmp_path"
      and "upload_voice_sample env uid names content s = (Inl x, s')"
  shows "path_exists (files s') tmp_path"
proof -
  from upload_error[OF assms(2)] obtain e where
    "upload_voice_sample_try env uid names content s = (Inl e, s')" by blast
  with assms(1) show ?thesis
    by (auto simp: upload_voice_sample_try_def Let_def path_exists_create_file
                   path_exists_write_file
             split: sum.splits)
qed

text \<open>On the success path the temporary file is removed.\<close>

lemma upload_success_removes_tmp_file:
  assumes "mkstemp_inner (gettempdir env) ''tmp'' ''.wav'' names (files s) = Inr tmp_path"
      and "upload_voice_sample env uid names content s = (Inr r, s')"
  shows "\<not> path_exists (files s') tmp_path"
  using assms(1) upload_try_success[OF upload_success[OF assms(2)]]
  by (auto simp: path_exists_delete)

subsection \<open>\<^verbatim>\<open>convert_pdf\<close>\<close>

lemma convert_in_tmp_dir_registry:
  "convert_in_tmp_dir env d t vid language s = (r, s') \<Longrightarrow>
   reference_audios s' = reference_audios s"
  by (auto simp: convert_in_tmp_dir_def Let_def split: sum.splits option.splits if_splits)

lemma convert_pdf_try_registry:
  "convert_pdf_try env names pdf_content vid language s = (r, s') \<Longrightarrow>
   reference_audios s' = reference_audios s"
  by (auto simp: convert_pdf_try_def split: sum.splits prod.splits if_splits
           dest: convert_in_tmp_dir_registry)

lemma convert_pdf_registry:
  "convert_pdf env names pdf_content vid language s = (r, s') \<Longrightarrow>
   reference_audios s' = reference_audios s"
  by (auto simp: convert_pdf_def split: sum.splits prod.splits dest: convert_pdf_try_registry)

lemma convert_error:
  assumes "convert_pdf env names pdf_content vid language s = (Inl x, s')"
  shows "\<exists>e. convert_pdf_try env names pdf_content vid language s = (Inl e, s') \<and>
     x = HTTPException 500 (''Error converting PDF: '' @ str_exn env e)"
  using assms by (auto simp: convert_pdf_def split: sum.splits prod.splits)

text \<open>What the handler does when the voice is not given or not a key: only the base
  synthesis runs.\<close>

lemma convert_in_tmp_dir_default:
  assumes "case vid of None \<Rightarrow> True | Some v \<Rightarrow> v \<notin> set (map fst (reference_audios s))"
  shows "convert_in_tmp_dir env d t vid language s =
         (case tts env t language of
            Inl e \<Rightarrow> (Inl e, s)
          | Inr base \<Rightarrow>
              (case write_file (path_join d ''base_audio.wav'') base (files s) of
                 Inl e \<Rightarrow> (Inl e, s)
               | Inr fs1 \<Rightarrow>
                   (Inr \<lparr>path = path_join d ''base_audio.wav'', media_type = ''audio/wav'',
                         filename = ''converted_audio.wav''\<rparr>,
                    s\<lparr>files := fs1\<rparr>)))"
  using assms
  by (auto simp: convert_in_tmp_dir_def Let_def split: sum.splits option.splits)

lemma convert_pdf_try_default:
  assumes "case vid of None \<Rightarrow> True | Some v \<Rightarrow> v \<notin> set (map fst (reference_audios s))"
  shows "convert_pdf_try env names pdf_content vid language s =
     (case pdf_reader env pdf_content of
        Inl e \<Rightarrow> (Inl e, s)
      | Inr pages \<Rightarrow>
     (case extract_pages [] pages of
        Inl e \<Rightarrow> (Inl e, s)
      | Inr t \<Rightarrow>
          if strip t = [] then
            (Inl (HTTPException 400 ''No text could be extracted from PDF''), s)
          else
            (case mkdtemp (gettempdir env) ''tmp'' [] names (files s) of
               Inl e \<Rightarrow> (Inl e, s)
             | Inr tmp_dir \<Rightarrow>
                 (case tts env t language of
                    Inl e \<Rightarrow>
                      (Inl e, s\<lparr>files := rmtree tmp_dir (mkdir tmp_dir (files s))\<rparr>)
                  | Inr base \<Rightarrow>
                 (case write_file (path_join tmp_dir ''base_audio.wav'') base
                         (mkdir tmp_dir (files s)) of
                    Inl e \<Rightarrow>
                      (Inl e, s\<lparr>files := rmtree tmp_dir (mkdir tmp_dir (files s))\<rparr>)
                  | Inr fs1 \<Rightarrow>
                     (Inr \<lparr>path = path_join tmp_dir ''base_audio.wav'',
                           media_type = ''audio/wav'', filename = ''converted_audio.wav''\<rparr>,
                      s\<lparr>files := rmtree tmp_dir fs1\<rparr>))))))"
proof -
  have a: "\<And>d. case vid of None \<Rightarrow> True
           | Some v \<Rightarrow> v \<notin> set (map fst (reference_audios (s\<lparr>files := mkdir d (files s)\<rparr>)))"
    using assms by (simp split: option.splits)
  show ?thesis
    by (simp add: convert_pdf_try_def convert_in_tmp_dir_default[OF a]
           split: sum.splits)
qed

lemma str_exn_other_library:
  "str_exn (env\<lparr>get_se := g, tone_convert := c\<rparr>) e = str_exn env e"
  by (cases e) simp_all

text \<open>
  On that path the response is built while the file it names holds the bytes the base
  synthesis returned.
\<close>

lemma convert_in_tmp_dir_default_file:
  assumes "case vid of None \<Rightarrow> True | Some v \<Rightarrow> v \<notin> set (map fst (reference_audios s))"
      and "convert_in_tmp_dir env d t vid language s = (Inr r, s1)"
  shows "\<exists>base. tts env t language = Inr base \<and>
           r = \<lparr>path = path_join d ''base_audio.wav'', media_type = ''audio/wav'',
                 filename = ''converted_audio.wav''\<rparr> \<and>
           read_file (files s1) (path r) = Inr base"
  using assms(2)
  by (auto simp: convert_in_tmp_dir_default[OF assms(1)] read_file_written
           split: sum.splits)

text \<open>The file a successful response names lies in the temporary directory, which is
  gone when the handler has returned.\<close>

lemma convert_in_tmp_dir_path:
  "convert_in_tmp_dir env d t vid language s = (Inr r, s') \<Longrightarrow> in_dir d (path r)"
  by (auto simp: convert_in_tmp_dir_def Let_def in_dir_join
           split: sum.splits option.splits if_splits)

lemma convert_success_file_removed:
  assumes "convert_pdf env names pdf_content vid language s = (Inr r, s')"
  shows "\<not> path_exists (files s') (path r)"
  using assms
  by (auto simp: convert_pdf_def convert_pdf_try_def path_exists_rmtree
           split: sum.splits prod.splits if_splits dest: convert_in_tmp_dir_path)

text \<open>The temporary directory itself is gone however the handler ends.\<close>

lemma convert_removes_tmp_dir:
  assumes "mkdtemp (gettempdir env) ''tmp'' [] names (files s) = Inr d"
      and "convert_pdf env names pdf_content vid language s = (r, s')"
  shows "\<not> path_exists (files s') d"
  using assms mkdtemp_fresh[OF assms(1)]
  by (auto simp: convert_pdf_def convert_pdf_try_def path_exists_rmtree in_dir_self
           split: sum.splits prod.splits if_splits)

subsection \<open>\<^verbatim>\<open>delete_voice\<close>\<close>

lemma key_has_record:
  "v \<in> set (map fst al) \<Longrightarrow> \<exists>info. map_of al v = Some info"
  by (metis map_of_eq_None_iff not_Some_eq set_map)

lemma record_has_key:
  "map_of al v = Some info \<Longrightarrow> v \<in> set (map fst al)"
  by (metis map_of_eq_None_iff option.distinct(1) set_map)


text \<open>A key whose backing path is a directory: \<^verbatim>\<open>os.path.exists\<close> is true, \<^verbatim>\<open>os.remove\<close>
  raises, and the record stays.\<close>

lemma delete_voice_backing_directory:
  "delete_voice mock_env ''u1'' (one_voice\<lparr>files := [(''processed_u1.wav'', Dir)]\<rparr>) =
     (Inl (Error ''[Errno 21] Is a directory: processed_u1.wav''),
      one_voice\<lparr>files := [(''processed_u1.wav'', Dir)]\<rparr>)"
  by (simp add: delete_voice_def one_voice_def path_exists_def os_remove_def)

lemma delete_voice_unknown:
  "v \<notin> set (map fst (reference_audios s)) \<Longrightarrow>
   delete_voice env v s = (Inl (HTTPException 404 ''Voice ID not found''), s)"
  by (simp add: delete_voice_def)

lemma delete_voice_error:
  assumes "delete_voice env v s = (Inl x, s')"
  shows "s' = s \<and>
         (v \<notin> set (map fst (reference_audios s)) \<and>
            x = HTTPException 404 ''Voice ID not found'' \<or>
          (\<exists>info. map_of (reference_audios s) v = Some info \<and>
                  path_exists (files s) (audio_path info) \<and>
                  os_remove env (files s) (audio_path info) = Inl x))"
  using assms key_has_record[of v "reference_audios s"]
  by (auto simp: delete_voice_def simp del: set_map
           split: if_splits option.splits sum.splits)

lemma delete_voice_success:
  assumes "delete_voice env v s = (Inr msg, s')"
  shows "reference_audios s' = AList.delete v (reference_audios s)"
  using assms
  by (auto simp: delete_voice_def split: if_splits option.splits sum.splits)

lemma delete_voice_keys:
  "set (map fst (reference_audios (snd (delete_voice env v s)))) \<subseteq>
     set (map fst (reference_audios s)) \<and>
   set (map fst (reference_audios s)) - {v} \<subseteq>
     set (map fst (reference_audios (snd (delete_voice env v s))))"
proof (cases "delete_voice env v s")
  case (Pair res s')
  show ?thesis
  proof (cases res)
    case (Inl x)
    with Pair delete_voice_error[of env v s x s'] show ?thesis by auto
  next
    case (Inr msg)
    with Pair delete_voice_success[of env v s msg s'] show ?thesis
      by (auto simp: keys_delete simp del: set_map)
  qed
qed

subsection \<open>Sequences of requests\<close>

lemma serve_keeps_key:
  assumes "v \<in> set (map fst (reference_audios s))" "\<not> deletes v r"
  shows "v \<in> set (map fst (reference_audios (serve env r s)))"
proof (cases r)
  case (UploadVoiceSample uid names content)
  with assms upload_keys[of env uid names content s] show ?thesis by auto
next
  case (ConvertPdf names pdf_content vid language)
  with assms convert_pdf_registry[of env names pdf_content vid language s] show ?thesis
    by (cases "convert_pdf env names pdf_content vid language s") auto
next
  case (DeleteVoice vid)
  with assms delete_voice_keys[of env vid s] show ?thesis by auto
qed (use assms in \<open>auto simp: list_voices_def\<close>)

lemma serve_all_keeps_key:
  assumes "v \<in> set (map fst (reference_audios s))" "list_all (\<lambda>r. \<not> deletes v r) rs"
  shows "v \<in> set (map fst (reference_audios (serve_all env rs s)))"
  using assms
  by (induction rs arbitrary: s) (auto simp del: set_map intro: serve_keeps_key)



subsection \<open>The dashboard\<close>

lemma save_try_registry_independent:
  "fst (save_voice_sample_try env uid names content voice_name (s\<lparr>voice_samples := vs\<rparr>)) =
   fst (save_voice_sample_try env uid names content voice_name s)"
  by (simp add: save_voice_sample_try_def Let_def split: sum.splits)

lemma save_registry_independent:
  "fst (save_voice_sample env uid names voice_file voice_name clicked
          (s\<lparr>voice_samples := vs\<rparr>)) =
   fst (save_voice_sample env uid names voice_file voice_name clicked s)"
proof (cases voice_file)
  case None
  then show ?thesis by (simp add: save_voice_sample_def)
next
  case (Some content)
  obtain a s1 where 1: "save_voice_sample_try env uid names content voice_name s = (a, s1)"
    by force
  obtain b s2 where 2:
    "save_voice_sample_try env uid names content voice_name (s\<lparr>voice_samples := vs\<rparr>) =
       (b, s2)"
    by force
  from 1 2 save_try_registry_independent[of env uid names content voice_name vs s]
  have "b = a" by simp
  with Some 1 2 show ?thesis
    by (simp add: save_voice_sample_def split: sum.splits)
qed

text \<open>
  A save that succeeds: every step returned, and the record stored under the name is
  the embedding that the extractor returned for the exported clip, with the path the
  clip was exported to.
\<close>

lemma save_try_success:
  assumes "save_voice_sample_try env uid names content voice_name s = (Inr msg, s')"
  shows "\<exists>tmp_path audio0 audio1 audio wav se fs2.
           mkstemp_inner (gettempdir env) ''tmp'' ''.wav'' names (files s) = Inr tmp_path \<and>
           from_file env content = Inr audio0 \<and>
           set_channels env 1 audio0 = Inr audio1 \<and>
           set_frame_rate env 24000 audio1 = Inr audio \<and>
           export env audio ''wav'' = Inr wav \<and>
           write_file (''processed_'' @ uid @ ''.wav'') wav
             (create_file tmp_path content (files s)) = Inr fs2 \<and>
           get_se env wav = Inr se \<and>
           remove_fault env tmp_path = None \<and>
           s' = s\<lparr>files := AList.delete tmp_path fs2,
                  voice_samples :=
                    AList.update voice_name
                      \<lparr>embedding = se, audio_path = ''processed_'' @ uid @ ''.wav''\<rparr>
                      (voice_samples s)\<rparr>"
proof -
  from assms obtain tmp_path where
    m: "mkstemp_inner (gettempdir env) ''tmp'' ''.wav'' names (files s) = Inr tmp_path"
    by (auto simp: save_voice_sample_try_def split: sum.splits)
  from assms m obtain audio0 where a0: "from_file env content = Inr audio0"
    by (auto simp: save_voice_sample_try_def Let_def read_file_created split: sum.splits)
  from assms m a0 obtain audio1 where a1: "set_channels env 1 audio0 = Inr audio1"
    by (auto simp: save_voice_sample_try_def Let_def read_file_created split: sum.splits)
  from assms m a0 a1 obtain audio where a: "set_frame_rate env 24000 audio1 = Inr audio"
    by (auto simp: save_voice_sample_try_def Let_def read_file_created split: sum.splits)
  from assms m a0 a1 a obtain wav where w: "export env audio ''wav'' = Inr wav"
    by (auto simp: save_voice_sample_try_def Let_def read_file_created split: sum.splits)
  from assms m a0 a1 a w obtain fs2 where
    f: "write_file (''processed_'' @ uid @ ''.wav'') wav
          (create_file tmp_path content (files s)) = Inr fs2"
    by (auto simp: save_voice_sample_try_def Let_def read_file_created split: sum.splits)
  note rd = read_file_written[OF f]
  from assms m a0 a1 a w f rd obtain se where g: "get_se env wav = Inr se"
    by (auto simp: save_voice_sample_try_def Let_def read_file_created split: sum.splits)
  from tmp_file_still_there[OF f] obtain b where t: "map_of fs2 tmp_path = Some (File b)"
    by blast
  from assms m a0 a1 a w f rd g t have nf: "remove_fault env tmp_path = None"
    by (auto simp: save_voice_sample_try_def Let_def read_file_created os_unlink_file
             split: sum.splits option.splits)
  from assms m a0 a1 a w f rd g t nf have
    "s' = s\<lparr>files := AList.delete tmp_path fs2,
            voice_samples :=
              AList.update voice_name
                \<lparr>embedding = se, audio_path = ''processed_'' @ uid @ ''.wav''\<rparr>
                (voice_samples s)\<rparr>"
    by (auto simp: save_voice_sample_try_def Let_def read_file_created os_unlink_file)
  with m a0 a1 a w f g nf show ?thesis by blast
qed

subsection \<open>Backing paths are never directories\<close>

text \<open>
  No handler leaves a directory where there was none, and a record is stored only
  after its clip was written to its path as a regular file.  So if no record's backing
  path is a directory, as when the registry is empty, that stays so after every
  request.
\<close>

lemma list_all_update:
  "P (k, v) \<Longrightarrow> list_all P al \<Longrightarrow> list_all P (AList.update k v al)"
  by (induction al) auto

lemma list_all_delete:
  "list_all P al \<Longrightarrow> list_all P (AList.delete k al)"
  by (induction al) auto

lemma backing_files_mono:
  assumes "backing_files s"
      and "reference_audios s' = reference_audios s"
      and "\<And>p. map_of (files s') p = Some Dir \<Longrightarrow> map_of (files s) p = Some Dir"
  shows "backing_files s'"
  using assms by (auto simp: backing_files_def list_all_iff)

lemma upload_try_dirs:
  assumes "upload_voice_sample_try env uid names content s = (res, s')"
      and "map_of (files s') p = Some Dir"
  shows "map_of (files s) p = Some Dir"
  using assms
  by (auto simp: upload_voice_sample_try_def Let_def map_of_create_file map_of_write_file
                 delete_conv' os_unlink_def
           split: sum.splits if_splits dest!: os_remove_result)

lemma upload_backing_files:
  assumes "backing_files s"
  shows "backing_files (snd (upload_voice_sample env uid names content s))"
proof -
  obtain res s' where t: "upload_voice_sample_try env uid names content s = (res, s')"
    by force
  then have u: "snd (upload_voice_sample env uid names content s) = s'"
    by (simp add: upload_voice_sample_def split: sum.splits)
  note dirs = upload_try_dirs[OF t]
  have old: "list_all (\<lambda>entry. map_of (files s') (audio_path (snd entry)) \<noteq> Some Dir)
               (reference_audios s)"
    using assms dirs by (auto simp: backing_files_def list_all_iff)
  have "list_all (\<lambda>entry. map_of (files s') (audio_path (snd entry)) \<noteq> Some Dir)
          (reference_audios s')"
  proof (cases "reference_audios s' = reference_audios s")
    case True
    with old show ?thesis by simp
  next
    case False
    with t obtain fs2 tmp_path wav se where
      w: "write_file (''processed_'' @ uid @ ''.wav'') wav
            (create_file tmp_path content (files s)) = Inr fs2" and
      r: "reference_audios s' =
            AList.update uid \<lparr>embedding = se, audio_path = ''processed_'' @ uid @ ''.wav''\<rparr>
              (reference_audios s)" and
      f: "files s' = fs2 \<or> files s' = AList.delete tmp_path fs2"
      by (auto simp: upload_voice_sample_try_def Let_def os_unlink_def
               split: sum.splits dest!: os_remove_result)
    from map_of_write_file[OF w, of "''processed_'' @ uid @ ''.wav''"]
    have "map_of fs2 (''processed_'' @ uid @ ''.wav'') \<noteq> Some Dir" by simp
    with f have "map_of (files s') (''processed_'' @ uid @ ''.wav'') \<noteq> Some Dir"
      by (auto simp: delete_conv' split: if_splits)
    with old r show ?thesis by (simp add: list_all_update)
  qed
  with u show ?thesis by (simp add: backing_files_def)
qed

lemma convert_in_tmp_dir_dirs:
  assumes "convert_in_tmp_dir env d t vid language s = (res, s')"
      and "map_of (files s') p = Some Dir"
  shows "map_of (files s) p = Some Dir"
  using assms
  by (auto simp: convert_in_tmp_dir_def Let_def map_of_write_file
           split: sum.splits option.splits if_splits)

lemma convert_backing_files:
  assumes "backing_files s"
  shows "backing_files (snd (convert_pdf env names pdf_content vid language s))"
proof -
  obtain res s' where t: "convert_pdf_try env names pdf_content vid language s = (res, s')"
    by force
  then have u: "snd (convert_pdf env names pdf_content vid language s) = s'"
    by (simp add: convert_pdf_def split: sum.splits)
  have "\<And>p. map_of (files s') p = Some Dir \<Longrightarrow> map_of (files s) p = Some Dir"
    using t
    by (auto simp: convert_pdf_try_def map_of_rmtree mkdir_def update_conv' in_dir_self
             split: sum.splits prod.splits if_splits dest!: convert_in_tmp_dir_dirs)
  with assms convert_pdf_try_registry[OF t] u show ?thesis
    by (simp add: backing_files_mono)
qed

lemma delete_backing_files:
  assumes "backing_files s"
  shows "backing_files (snd (delete_voice env v s))"
proof (cases "delete_voice env v s")
  case (Pair res s')
  show ?thesis
  proof (cases res)
    case (Inl x)
    with Pair delete_voice_error[of env v s x s'] assms show ?thesis by simp
  next
    case (Inr msg)
    with Pair have r: "reference_audios s' = AList.delete v (reference_audios s)"
      by (simp add: delete_voice_success)
    from Pair Inr have "\<And>p. map_of (files s') p = Some Dir \<Longrightarrow> map_of (files s) p = Some Dir"
      by (auto simp: delete_voice_def delete_conv'
               split: if_splits option.splits sum.splits dest!: os_remove_result)
    with assms have "list_all (\<lambda>entry. map_of (files s') (audio_path (snd entry)) \<noteq> Some Dir)
               (reference_audios s)"
      by (auto simp: backing_files_def list_all_iff)
    with r Pair show ?thesis by (simp add: backing_files_def list_all_delete)
  qed
qed

lemma serve_backing_files:
  "backing_files s \<Longrightarrow> backing_files (serve env r s)"
  by (cases r)
     (simp_all add: upload_backing_files convert_backing_files delete_backing_files
                    list_voices_def)

lemma serve_all_backing_files:
  "backing_files s \<Longrightarrow> backing_files (serve_all env rs s)"
  by (induction rs arbitrary: s) (simp_all add: serve_backing_files)

lemma backing_files_record:
  "backing_files s \<Longrightarrow> map_of (reference_audios s) v = Some info \<Longrightarrow>
   map_of (files s) (audio_path info) \<noteq> Some Dir"
proof -
  assume b: "backing_files s" and m: "map_of (reference_audios s) v = Some info"
  from m have "(v, info) \<in> set (reference_audios s)" by (rule map_of_SomeD)
  with b show ?thesis by (force simp: backing_files_def list_all_iff)
qed

section \<open>The claims\<close>

text \<open>
  Claim C1.  An upload that succeeds returns an identifier that the listing then shows:
  if \<^verbatim>\<open>upload_voice_sample\<close> answers with the identifier \<open>voice_id r\<close>, then after any
  further requests, none of which deletes that identifier (none at all, for the
  listing that follows at once), \<^verbatim>\<open>list_voices\<close> returns a list that contains it, and
  the registry holds a record under it.
\<close>

theorem upload_then_listed:
  assumes "upload_voice_sample env uid names content s = (Inr r, s')"
      and "list_all (\<lambda>q. \<not> deletes (voice_id r) q) rs"
  shows "map_of (reference_audios s') (voice_id r) \<noteq> None \<and>
         (\<exists>voices. fst (list_voices (serve_all env rs s')) = Inr voices \<and>
                   voice_id r \<in> set voices)"
proof -
  from upload_try_success[OF upload_success[OF assms(1)]] obtain se where
    v: "voice_id r = uid" and
    reg: "reference_audios s' =
            AList.update uid \<lparr>embedding = se, audio_path = ''processed_'' @ uid @ ''.wav''\<rparr>
              (reference_audios s)"
    by auto
  from reg have here: "map_of (reference_audios s') uid \<noteq> None"
    by (simp add: update_conv')
  then have "uid \<in> set (map fst (reference_audios s'))"
    by (metis map_of_eq_None_iff set_map)
  with assms(2) v have "uid \<in> set (map fst (reference_audios (serve_all env rs s')))"
    by (simp add: serve_all_keeps_key del: set_map)
  with v here show ?thesis by (simp add: list_voices_def)
qed

theorem upload_then_listed_witness:
  "upload_voice_sample mock_env ''u1'' [''a''] ''RIFF'' empty_api =
     (Inr \<lparr>voice_id = ''u1'', message = ''Voice sample uploaded successfully''\<rparr>, one_voice) \<and>
   list_all (\<lambda>q. \<not> deletes ''u1'' q) [ListVoices, DeleteVoice ''u2''] \<and>
   map_of (reference_audios one_voice) ''u1'' \<noteq> None \<and>
   (\<exists>voices. fst (list_voices (serve_all mock_env [ListVoices, DeleteVoice ''u2''] one_voice)) =
               Inr voices \<and> ''u1'' \<in> set voices)"
proof -
  have h: "upload_voice_sample mock_env ''u1'' [''a''] ''RIFF'' empty_api =
     (Inr \<lparr>voice_id = ''u1'', message = ''Voice sample uploaded successfully''\<rparr>, one_voice)"
    by (simp add: run_defs)
  have d: "list_all (\<lambda>q. \<not> deletes (voice_id \<lparr>voice_id = ''u1'',
              message = ''Voice sample uploaded successfully''\<rparr>) q)
             [ListVoices, DeleteVoice ''u2'']"
    by simp
  from upload_then_listed[OF h d] h show ?thesis by simp
qed



text \<open>
  Claim C3.  A PDF whose pages all yield text, and whose text (each page's text
  followed by a newline, joined) strips to the empty string, is rejected: the answer
  is an error, no file response, and the state is as before.  The rejection raised
  inside the \<^verbatim>\<open>try\<close> block has status 400; the handler's own \<^verbatim>\<open>except\<close> clause catches
  it and answers with status 500 and the rejection's text in the detail.
\<close>

theorem blank_pdf_rejected:
  assumes "pdf_reader env pdf_content = Inr (map Inr texts)"
      and "strip (concat (map (\<lambda>t. t @ [10]) texts)) = []"
  shows "convert_pdf env names pdf_content vid language s =
           (Inl (HTTPException 500
                  (''Error converting PDF: '' @
                   str_http env 400 ''No text could be extracted from PDF'')), s)"
  using assms
  by (simp add: convert_pdf_def convert_pdf_try_def extract_pages_all)

theorem blank_pdf_rejected_witness:
  "pdf_reader mock_env ''blank'' = Inr (map Inr [[32, 9]]) \<and>
   strip (concat (map (\<lambda>t. t @ [10]) [[32, 9]])) = [] \<and>
   convert_pdf mock_env [''d''] ''blank'' (Some ''u1'') ''english'' one_voice =
     (Inl (HTTPException 500
            ''Error converting PDF: 400: No text could be extracted from PDF''),
      one_voice)"
proof -
  have h: "pdf_reader mock_env ''blank'' = Inr (map Inr [[32, 9]])"
    by (simp add: mock_env_def)
  have b: "strip (concat (map (\<lambda>t. t @ [10]) [[32, 9]])) = []"
    by (simp add: strip_def py_isspace_def)
  from blank_pdf_rejected[OF h b, of "[''d'']" "Some ''u1''" "''english''" one_voice] h b
  show ?thesis by (simp add: mock_env_def starlette_str_def decimal_400)
qed

text \<open>
  What holds of a request whose voice identifier is not supplied or is not a key of the
  registry: it is answered exactly as the request without a voice identifier is; the
  answer and the state do not depend on the tone-colour converter or the embedding
  extractor, which are therefore not run; a successful answer names the file
  \<^verbatim>\<open>base_audio.wav\<close> in the temporary directory, and that file held the bytes of the base
  synthesis when the answer was built.
\<close>

lemma default_voice_path:
  assumes "case vid of None \<Rightarrow> True | Some v \<Rightarrow> v \<notin> set (map fst (reference_audios s))"
  shows "convert_pdf env names pdf_content vid language s =
           convert_pdf env names pdf_content None language s \<and>
         convert_pdf (env\<lparr>get_se := g, tone_convert := c\<rparr>) names pdf_content vid language s =
           convert_pdf env names pdf_content vid language s \<and>
         (\<forall>r s'. convert_pdf env names pdf_content vid language s = (Inr r, s') \<longrightarrow>
            (\<exists>pages t d base s1.
               pdf_reader env pdf_content = Inr pages \<and> extract_pages [] pages = Inr t \<and>
               mkdtemp (gettempdir env) ''tmp'' [] names (files s) = Inr d \<and>
               tts env t language = Inr base \<and>
               convert_in_tmp_dir env d t vid language (s\<lparr>files := mkdir d (files s)\<rparr>) =
                 (Inr r, s1) \<and>
               r = \<lparr>path = path_join d ''base_audio.wav'', media_type = ''audio/wav'',
                     filename = ''converted_audio.wav''\<rparr> \<and>
               read_file (files s1) (path r) = Inr base \<and>
               s' = s1\<lparr>files := rmtree d (files s1)\<rparr>))"
proof (intro conjI allI impI)
  show "convert_pdf env names pdf_content vid language s =
           convert_pdf env names pdf_content None language s"
    by (simp add: convert_pdf_def convert_pdf_try_default[OF assms]
                  convert_pdf_try_default[where vid="None"])
next
  show "convert_pdf (env\<lparr>get_se := g, tone_convert := c\<rparr>) names pdf_content vid language s =
           convert_pdf env names pdf_content vid language s"
    by (simp add: convert_pdf_def convert_pdf_try_default[OF assms] str_exn_other_library
             cong: sum.case_cong prod.case_cong if_cong)
next
  fix r s'
  assume ok: "convert_pdf env names pdf_content vid language s = (Inr r, s')"
  then have t: "convert_pdf_try env names pdf_content vid language s = (Inr r, s')"
    by (auto simp: convert_pdf_def split: sum.splits prod.splits)
  then obtain pages t d s1 where
    p: "pdf_reader env pdf_content = Inr pages" and e: "extract_pages [] pages = Inr t" and
    m: "mkdtemp (gettempdir env) ''tmp'' [] names (files s) = Inr d" and
    c: "convert_in_tmp_dir env d t vid language (s\<lparr>files := mkdir d (files s)\<rparr>) = (Inr r, s1)"
       and
    s': "s' = s1\<lparr>files := rmtree d (files s1)\<rparr>"
    by (auto simp: convert_pdf_try_def split: sum.splits prod.splits if_splits)
  have a: "case vid of None \<Rightarrow> True
           | Some v \<Rightarrow> v \<notin> set (map fst (reference_audios (s\<lparr>files := mkdir d (files s)\<rparr>)))"
    using assms by (simp split: option.splits)
  from convert_in_tmp_dir_default_file[OF a c] p e m c s'
  show "\<exists>pages t d base s1.
               pdf_reader env pdf_content = Inr pages \<and> extract_pages [] pages = Inr t \<and>
               mkdtemp (gettempdir env) ''tmp'' [] names (files s) = Inr d \<and>
               tts env t language = Inr base \<and>
               convert_in_tmp_dir env d t vid language (s\<lparr>files := mkdir d (files s)\<rparr>) =
                 (Inr r, s1) \<and>
               r = \<lparr>path = path_join d ''base_audio.wav'', media_type = ''audio/wav'',
                     filename = ''converted_audio.wav''\<rparr> \<and>
               read_file (files s1) (path r) = Inr base \<and>
               s' = s1\<lparr>files := rmtree d (files s1)\<rparr>"
    by blast
qed

text \<open>
  Claim C4 does not hold of the code.  A conversion that names an identifier the
  registry does not have takes the default-voice path and answers with a response for
  \<^verbatim>\<open>base_audio.wav\<close>, the file the base synthesis wrote; but the handler has removed the
  temporary directory by the time it has returned, so the file the response names is
  not there to be read: the answer is not the audio of the base synthesis.
\<close>

theorem default_voice_response_has_no_file:
  "convert_pdf mock_env [''d''] ''hello'' (Some ''ghost'') ''english'' one_voice =
     (Inr \<lparr>path = ''/tmp/tmpd/base_audio.wav'', media_type = ''audio/wav'',
           filename = ''converted_audio.wav''\<rparr>, one_voice) \<and>
   tts mock_env [104, 105, 10] ''english'' = Inr ''speech in english'' \<and>
   read_file (files one_voice) ''/tmp/tmpd/base_audio.wav'' =
     Inl (Error ''[Errno 2] No such file or directory: /tmp/tmpd/base_audio.wav'')"
  by (simp add: run_defs)

text \<open>
  Claim C5, as amended.  A failure of \<^verbatim>\<open>upload_voice_sample\<close> or of \<^verbatim>\<open>convert_pdf\<close> is
  answered with status 500, the detail being the endpoint's prefix followed by the
  message of the exception that its \<^verbatim>\<open>try\<close> block raised.  \<^verbatim>\<open>delete_voice\<close> answers an
  identifier that is not a key with status 404 and the detail \<^verbatim>\<open>Voice ID not found\<close>;
  its only other failure is an exception of \<^verbatim>\<open>os.remove\<close> for the backing file of a key,
  which leaves the handler as it was raised.  \<^verbatim>\<open>list_voices\<close> does not fail.
\<close>

theorem failures_by_endpoint:
  "(\<forall>x. fst (upload_voice_sample env uid names content s) = Inl x \<longrightarrow>
      (\<exists>e. fst (upload_voice_sample_try env uid names content s) = Inl e \<and>
           x = HTTPException 500 (''Error processing voice sample: '' @ str_exn env e))) \<and>
   (\<forall>x. fst (convert_pdf env dnames pdf_content vid language s) = Inl x \<longrightarrow>
      (\<exists>e. fst (convert_pdf_try env dnames pdf_content vid language s) = Inl e \<and>
           x = HTTPException 500 (''Error converting PDF: '' @ str_exn env e))) \<and>
   (\<forall>x. fst (delete_voice env v s) = Inl x \<longrightarrow>
      (v \<notin> set (map fst (reference_audios s)) \<and>
         x = HTTPException 404 ''Voice ID not found'' \<or>
       (\<exists>info. map_of (reference_audios s) v = Some info \<and>
               path_exists (files s) (audio_path info) \<and>
               os_remove env (files s) (audio_path info) = Inl x))) \<and>
   (\<exists>voices. fst (list_voices s) = Inr voices)"
proof (intro conjI allI impI)
  fix x assume "fst (upload_voice_sample env uid names content s) = Inl x"
  then show "\<exists>e. fst (upload_voice_sample_try env uid names content s) = Inl e \<and>
           x = HTTPException 500 (''Error processing voice sample: '' @ str_exn env e)"
    using upload_error[of env uid names content s x]
    by (cases "upload_voice_sample env uid names content s") auto
next
  fix x assume "fst (convert_pdf env dnames pdf_content vid language s) = Inl x"
  then show "\<exists>e. fst (convert_pdf_try env dnames pdf_content vid language s) = Inl e \<and>
           x = HTTPException 500 (''Error converting PDF: '' @ str_exn env e)"
    using convert_error[of env dnames pdf_content vid language s x]
    by (cases "convert_pdf env dnames pdf_content vid language s") auto
next
  fix x assume a: "fst (delete_voice env v s) = Inl x"
  then obtain s' where "delete_voice env v s = (Inl x, s')"
    by (cases "delete_voice env v s") auto
  from delete_voice_error[OF this]
  show "v \<notin> set (map fst (reference_audios s)) \<and>
         x = HTTPException 404 ''Voice ID not found'' \<or>
       (\<exists>info. map_of (reference_audios s) v = Some info \<and>
               path_exists (files s) (audio_path info) \<and>
               os_remove env (files s) (audio_path info) = Inl x)"
    by blast
next
  show "\<exists>voices. fst (list_voices s) = Inr voices" by (simp add: list_voices_def)
qed

theorem failures_by_endpoint_witness:
  "fst (upload_voice_sample mock_env ''u2'' [''a''] [] one_voice) =
     Inl (HTTPException 500 ''Error processing voice sample: could not decode'') \<and>
   (\<exists>e. fst (upload_voice_sample_try mock_env ''u2'' [''a''] [] one_voice) = Inl e \<and>
        HTTPException 500 ''Error processing voice sample: could not decode'' =
        HTTPException 500 (''Error processing voice sample: '' @ str_exn mock_env e)) \<and>
   fst (convert_pdf mock_env [''d''] ''junk'' None ''english'' one_voice) =
     Inl (HTTPException 500 ''Error converting PDF: EOF marker not found'') \<and>
   (\<exists>e. fst (convert_pdf_try mock_env [''d''] ''junk'' None ''english'' one_voice) = Inl e \<and>
        HTTPException 500 ''Error converting PDF: EOF marker not found'' =
        HTTPException 500 (''Error converting PDF: '' @ str_exn mock_env e)) \<and>
   fst (delete_voice mock_env ''ghost'' one_voice) =
     Inl (HTTPException 404 ''Voice ID not found'') \<and>
   map_of (reference_audios one_voice) ''ghost'' = None \<and>
   ''ghost'' \<notin> set (map fst (reference_audios one_voice)) \<and>
   (\<exists>voices. fst (list_voices one_voice) = Inr voices)"
proof -
  have u: "fst (upload_voice_sample mock_env ''u2'' [''a''] [] one_voice) =
     Inl (HTTPException 500 ''Error processing voice sample: could not decode'')"
    by (simp add: run_defs)
  have c: "fst (convert_pdf mock_env [''d''] ''junk'' None ''english'' one_voice) =
     Inl (HTTPException 500 ''Error converting PDF: EOF marker not found'')"
    by (simp add: run_defs)
  have d: "fst (delete_voice mock_env ''ghost'' one_voice) =
     Inl (HTTPException 404 ''Voice ID not found'')"
    by (simp add: run_defs)
  have k: "map_of (reference_audios one_voice) ''ghost'' = None"
    by (simp add: one_voice_def)
  note t = failures_by_endpoint[where env = mock_env and uid = "''u2''" and names = "[''a'']"
      and content = "[]" and s = one_voice and dnames = "[''d'']" and pdf_content = "''junk''"
      and vid = None and language = "''english''" and v = "''ghost''"]
  from t u have 1:
    "\<exists>e. fst (upload_voice_sample_try mock_env ''u2'' [''a''] [] one_voice) = Inl e \<and>
        HTTPException 500 ''Error processing voice sample: could not decode'' =
        HTTPException 500 (''Error processing voice sample: '' @ str_exn mock_env e)"
    by blast
  from t c have 2:
    "\<exists>e. fst (convert_pdf_try mock_env [''d''] ''junk'' None ''english'' one_voice) = Inl e \<and>
        HTTPException 500 ''Error converting PDF: EOF marker not found'' =
        HTTPException 500 (''Error converting PDF: '' @ str_exn mock_env e)"
    by blast
  from t d k have 3: "''ghost'' \<notin> set (map fst (reference_audios one_voice))"
    by force
  from t have 4: "\<exists>voices. fst (list_voices one_voice) = Inr voices"
    by blast
  from u 1 c 2 d k 3 4 show ?thesis by blast
qed

text \<open>
  Claim C5 as it is written, that no endpoint reports a failure with a status other
  than 500, fails at the request to delete an identifier that was never uploaded.
\<close>

theorem delete_unknown_is_404:
  "fst (delete_voice mock_env ''ghost'' empty_api) =
     Inl (HTTPException 404 ''Voice ID not found'') \<and>
   HTTPException 404 ''Voice ID not found'' \<noteq> HTTPException 500 ''Voice ID not found'' \<and>
   (404::nat) \<noteq> 500"
  by (simp add: delete_voice_def empty_api_def)

text \<open>
  Claim C6.  \<^verbatim>\<open>convert_pdf\<close> and \<^verbatim>\<open>list_voices\<close> leave the registry as it was
  (\<^verbatim>\<open>list_voices\<close> leaves the whole state), an upload removes no key and adds at most the
  identifier it drew, and a deletion adds no key and removes at most the one it names.
\<close>

theorem registry_frame:
  "reference_audios (snd (convert_pdf env dnames pdf_content vid language s)) =
     reference_audios s \<and>
   snd (list_voices s) = s \<and>
   set (map fst (reference_audios s)) \<subseteq>
     set (map fst (reference_audios (snd (upload_voice_sample env uid names content s)))) \<and>
   set (map fst (reference_audios (snd (upload_voice_sample env uid names content s)))) \<subseteq>
     insert uid (set (map fst (reference_audios s))) \<and>
   set (map fst (reference_audios (snd (delete_voice env v s)))) \<subseteq>
     set (map fst (reference_audios s)) \<and>
   set (map fst (reference_audios s)) - {v} \<subseteq>
     set (map fst (reference_audios (snd (delete_voice env v s))))"
proof (intro conjI)
  show "reference_audios (snd (convert_pdf env dnames pdf_content vid language s)) =
     reference_audios s"
    using convert_pdf_registry[of env dnames pdf_content vid language s]
    by (cases "convert_pdf env dnames pdf_content vid language s") simp
  show "snd (list_voices s) = s" by (simp add: list_voices_def)
  show "set (map fst (reference_audios s)) \<subseteq>
     set (map fst (reference_audios (snd (upload_voice_sample env uid names content s))))"
    using upload_keys[of env uid names content s] by blast
  show "set (map fst (reference_audios (snd (upload_voice_sample env uid names content s))))
     \<subseteq> insert uid (set (map fst (reference_audios s)))"
    using upload_keys[of env uid names content s] by blast
  show "set (map fst (reference_audios (snd (delete_voice env v s)))) \<subseteq>
     set (map fst (reference_audios s))"
    using delete_voice_keys[of env v s] by blast
  show "set (map fst (reference_audios s)) - {v} \<subseteq>
     set (map fst (reference_audios (snd (delete_voice env v s))))"
    using delete_voice_keys[of env v s] by blast
qed

text \<open>
  Claim C7 does not hold of the code.  An upload whose bytes do not decode is answered
  with an error while the temporary file it wrote is still on the disk; and a
  conversion that succeeds answers with a file in the temporary directory that the
  handler has already removed.
\<close>

theorem temporary_files_at_completion:
  "upload_voice_sample mock_env ''u1'' [''a''] [] empty_api =
     (Inl (HTTPException 500 ''Error processing voice sample: could not decode''),
      \<lparr>files = [(''/tmp/tmpa.wav'', File [])], reference_audios = []\<rparr>) \<and>
   mkstemp_inner (gettempdir mock_env) ''tmp'' ''.wav'' [''a''] (files empty_api) =
     Inr ''/tmp/tmpa.wav'' \<and>
   path_exists [(''/tmp/tmpa.wav'', File [])] ''/tmp/tmpa.wav'' \<and>
   convert_pdf mock_env [''d''] ''hello'' None ''english'' empty_api =
     (Inr \<lparr>path = ''/tmp/tmpd/base_audio.wav'', media_type = ''audio/wav'',
           filename = ''converted_audio.wav''\<rparr>,
      \<lparr>files = [], reference_audios = []\<rparr>) \<and>
   \<not> path_exists [] ''/tmp/tmpd/base_audio.wav''"
  by (simp add: run_defs)

text \<open>
  Claim C8.  With no voice identifier, or with one that is a key in neither of two
  registries, the answer to \<^verbatim>\<open>convert_pdf\<close> is the same whichever registry the state
  holds, and so are the files the request leaves.
\<close>

theorem default_voice_ignores_registry:
  assumes "case vid of None \<Rightarrow> True
           | Some v \<Rightarrow> v \<notin> set (map fst (reference_audios s)) \<and> v \<notin> set (map fst registry)"
  shows "fst (convert_pdf env names pdf_content vid language (s\<lparr>reference_audios := registry\<rparr>)) =
           fst (convert_pdf env names pdf_content vid language s) \<and>
         files (snd (convert_pdf env names pdf_content vid language
                       (s\<lparr>reference_audios := registry\<rparr>))) =
           files (snd (convert_pdf env names pdf_content vid language s))"
proof -
  have a: "case vid of None \<Rightarrow> True | Some v \<Rightarrow> v \<notin> set (map fst (reference_audios s))"
    using assms by (auto split: option.splits)
  have b: "case vid of None \<Rightarrow> True
           | Some v \<Rightarrow> v \<notin> set (map fst (reference_audios (s\<lparr>reference_audios := registry\<rparr>)))"
    using assms by (auto split: option.splits)
  show ?thesis
    by (simp add: convert_pdf_def convert_pdf_try_default[OF a] convert_pdf_try_default[OF b]
           split: sum.splits)
qed

theorem default_voice_ignores_registry_witness:
  "(case Some ''ghost'' of None \<Rightarrow> True
    | Some v \<Rightarrow> v \<notin> set (map fst (reference_audios one_voice)) \<and>
               v \<notin> set (map fst ([]::(string \<times> nat voice) list))) \<and>
   fst (convert_pdf mock_env [''d''] ''hello'' (Some ''ghost'') ''english''
          (one_voice\<lparr>reference_audios := []\<rparr>)) =
     fst (convert_pdf mock_env [''d''] ''hello'' (Some ''ghost'') ''english'' one_voice) \<and>
   files (snd (convert_pdf mock_env [''d''] ''hello'' (Some ''ghost'') ''english''
                 (one_voice\<lparr>reference_audios := []\<rparr>))) =
     files (snd (convert_pdf mock_env [''d''] ''hello'' (Some ''ghost'') ''english'' one_voice))"
proof -
  have h: "case Some ''ghost'' of None \<Rightarrow> True
    | Some v \<Rightarrow> v \<notin> set (map fst (reference_audios one_voice)) \<and>
               v \<notin> set (map fst ([]::(string \<times> nat voice) list))"
    by (simp add: one_voice_def)
  from default_voice_ignores_registry[OF h, of mock_env "[''d'']" "''hello''" "''english''"] h
  show ?thesis by blast
qed




text \<open>
  Claim C10.  In the dashboard, saving under a name that is already in the session's
  map shows the same message as saving into a map without that name, so the name being
  taken raises no error; and when the save succeeds the name is bound to the embedding
  that the extractor returned for the clip just exported and to the path the clip was
  exported to, the map has the same names in the same order, and the audio file of
  the record that was replaced, if it was on the disk, is still there.
\<close>

theorem save_under_existing_name:
  assumes "map_of (voice_samples s) voice_name = Some old" and "voice_name \<noteq> []"
  shows "fst (save_voice_sample env uid names (Some content) voice_name True s) =
           fst (save_voice_sample env uid names (Some content) voice_name True
                  (s\<lparr>voice_samples := AList.delete voice_name (voice_samples s)\<rparr>)) \<and>
         (\<forall>msg s'. save_voice_sample env uid names (Some content) voice_name True s =
                     (Some (st_success msg), s') \<longrightarrow>
            (\<exists>audio0 audio1 audio wav se.
               from_file env content = Inr audio0 \<and>
               set_channels env 1 audio0 = Inr audio1 \<and>
               set_frame_rate env 24000 audio1 = Inr audio \<and>
               export env audio ''wav'' = Inr wav \<and>
               get_se env wav = Inr se \<and>
               map_of (voice_samples s') voice_name =
                 Some \<lparr>embedding = se, audio_path = ''processed_'' @ uid @ ''.wav''\<rparr>) \<and>
            map fst (voice_samples s') = map fst (voice_samples s) \<and>
            (path_exists (files s) (audio_path old) \<longrightarrow>
               path_exists (files s') (audio_path old)))"
proof (intro conjI allI impI)
  show "fst (save_voice_sample env uid names (Some content) voice_name True s) =
           fst (save_voice_sample env uid names (Some content) voice_name True
                  (s\<lparr>voice_samples := AList.delete voice_name (voice_samples s)\<rparr>))"
    by (simp add: save_registry_independent)
next
  fix msg s'
  assume a: "save_voice_sample env uid names (Some content) voice_name True s =
                     (Some (st_success msg), s')"
  then have t: "save_voice_sample_try env uid names content voice_name s = (Inr msg, s')"
    using assms(2) by (auto simp: save_voice_sample_def split: prod.splits sum.splits)
  from save_try_success[OF t] obtain tmp_path audio0 audio1 audio wav se fs2 where
    m: "mkstemp_inner (gettempdir env) ''tmp'' ''.wav'' names (files s) = Inr tmp_path" and
    chain: "from_file env content = Inr audio0" "set_channels env 1 audio0 = Inr audio1"
           "set_frame_rate env 24000 audio1 = Inr audio" "export env audio ''wav'' = Inr wav"
           "get_se env wav = Inr se" and
    w: "write_file (''processed_'' @ uid @ ''.wav'') wav
          (create_file tmp_path content (files s)) = Inr fs2" and
    s': "s' = s\<lparr>files := AList.delete tmp_path fs2,
                 voice_samples :=
                   AList.update voice_name
                     \<lparr>embedding = se, audio_path = ''processed_'' @ uid @ ''.wav''\<rparr>
                     (voice_samples s)\<rparr>"
    by blast
  from s' have "map_of (voice_samples s') voice_name =
                 Some \<lparr>embedding = se, audio_path = ''processed_'' @ uid @ ''.wav''\<rparr>"
    by (simp add: update_conv')
  with chain show "\<exists>audio0 audio1 audio wav se.
               from_file env content = Inr audio0 \<and>
               set_channels env 1 audio0 = Inr audio1 \<and>
               set_frame_rate env 24000 audio1 = Inr audio \<and>
               export env audio ''wav'' = Inr wav \<and>
               get_se env wav = Inr se \<and>
               map_of (voice_samples s') voice_name =
                 Some \<lparr>embedding = se, audio_path = ''processed_'' @ uid @ ''.wav''\<rparr>"
    by blast
  have "voice_name \<in> set (map fst (voice_samples s))"
    using assms(1) by (rule record_has_key)
  then show "map fst (voice_samples s') = map fst (voice_samples s)"
    using s' by (simp add: update_keys del: set_map)
  {
    assume e: "path_exists (files s) (audio_path old)"
    with mkstemp_inner_fresh[OF m] have "audio_path old \<noteq> tmp_path" by auto
    with e s' show "path_exists (files s') (audio_path old)"
      by (simp add: path_exists_delete path_exists_write_file[OF w] path_exists_create_file)
  }
qed

theorem save_under_existing_name_witness:
  "map_of (voice_samples one_sample) ''alice'' =
     Some \<lparr>embedding = 4, audio_path = ''processed_u1.wav''\<rparr> \<and>
   ''alice'' \<noteq> [] \<and>
   path_exists (files one_sample) ''processed_u1.wav'' \<and>
   save_voice_sample mock_env ''u2'' [''a''] (Some ''RIFFWAVE'') ''alice'' True one_sample =
     (Some (st_success (''Voice sample '' @ [CHR 0x27] @ ''alice'' @ [CHR 0x27] @
                        '' saved successfully!'')),
      \<lparr>files = [(''processed_u1.wav'', File ''RIFF''), (''processed_u2.wav'', File ''RIFFWAVE'')],
       voice_samples = [(''alice'', \<lparr>embedding = 8, audio_path = ''processed_u2.wav''\<rparr>)]\<rparr>) \<and>
   get_se mock_env ''RIFFWAVE'' = Inr 8 \<and>
   fst (save_voice_sample mock_env ''u2'' [''a''] (Some ''RIFFWAVE'') ''alice'' True one_sample) =
     fst (save_voice_sample mock_env ''u2'' [''a''] (Some ''RIFFWAVE'') ''alice'' True
            (one_sample\<lparr>voice_samples := AList.delete ''alice'' (voice_samples one_sample)\<rparr>)) \<and>
   path_exists
     [(''processed_u1.wav'', File ''RIFF''), (''processed_u2.wav'', File ''RIFFWAVE'')]
     ''processed_u1.wav''"
proof -
  have h: "map_of (voice_samples one_sample) ''alice'' =
     Some \<lparr>embedding = 4, audio_path = ''processed_u1.wav''\<rparr>"
    by (simp add: one_sample_def)
  have n: "''alice'' \<noteq> []" by simp
  have p: "path_exists (files one_sample) ''processed_u1.wav''"
    by (simp add: one_sample_def path_exists_def)
  have g: "get_se mock_env ''RIFFWAVE'' = Inr 8"
    by (simp add: mock_env_def)
  have e: "save_voice_sample mock_env ''u2'' [''a''] (Some ''RIFFWAVE'') ''alice'' True one_sample =
     (Some (st_success (''Voice sample '' @ [CHR 0x27] @ ''alice'' @ [CHR 0x27] @
                        '' saved successfully!'')),
      \<lparr>files = [(''processed_u1.wav'', File ''RIFF''), (''processed_u2.wav'', File ''RIFFWAVE'')],
       voice_samples = [(''alice'', \<lparr>embedding = 8, audio_path = ''processed_u2.wav''\<rparr>)]\<rparr>)"
    by (simp add: run_defs)
  note t = save_under_existing_name[OF h n, where env = mock_env and uid = "''u2''" and
             names = "[''a'']" and content = "''RIFFWAVE''"]
  from t have 1:
    "fst (save_voice_sample mock_env ''u2'' [''a''] (Some ''RIFFWAVE'') ''alice'' True one_sample) =
     fst (save_voice_sample mock_env ''u2'' [''a''] (Some ''RIFFWAVE'') ''alice'' True
            (one_sample\<lparr>voice_samples := AList.delete ''alice'' (voice_samples one_sample)\<rparr>))"
    by blast
  from t have "\<forall>msg s'.
      save_voice_sample mock_env ''u2'' [''a''] (Some ''RIFFWAVE'') ''alice'' True one_sample =
        (Some (st_success msg), s') \<longrightarrow>
      (path_exists (files one_sample)
         (audio_path \<lparr>embedding = 4::nat, audio_path = ''processed_u1.wav''\<rparr>) \<longrightarrow>
       path_exists (files s')
         (audio_path \<lparr>embedding = 4::nat, audio_path = ''processed_u1.wav''\<rparr>))"
    by blast
  from this[rule_format, OF e] p have 3: "path_exists
     [(''processed_u1.wav'', File ''RIFF''), (''processed_u2.wav'', File ''RIFFWAVE'')]
     ''processed_u1.wav''"
    by simp
  from h n p e g 1 3 show ?thesis by blast
qed

end
